theory Spec2Isabelle
  imports Main
begin

section \<open>Cells, strings and tables\<close>

text \<open>
  The portal keeps two pandas tables in memory. A cell of a table is modelled by the
  values the application itself reads and writes: a missing value (an empty spreadsheet
  cell, read back as NaN), a Python integer, or a Python string. Strings are lists of
  code points below 256. Floating-point cells are outside the model. A table is the list
  of its rows, and the position of a row is its index label. Writing the workbook after
  an operation is not modelled: an operation maps the session state to the new one, and
  the time stamp \<open>datetime.utcnow().isoformat()\<close> of an operation is its parameter
  \<open>now\<close>.
\<close>

datatype cell = NaN | IntC int | StrC string

text \<open>Python's \<open>str.strip()\<close>: the code points below 256 that \<open>str.isspace\<close> accepts.\<close>

definition is_space :: "char \<Rightarrow> bool" where
  "is_space c = ((of_char c :: nat) \<in> {9, 10, 11, 12, 13, 28, 29, 30, 31, 32, 133, 160})"

definition strip :: "string \<Rightarrow> string" where
  "strip s = rev (dropWhile is_space (rev (dropWhile is_space s)))"

text \<open>Python's \<open>str.lower()\<close> on code points below 256.\<close>

definition lower_char :: "char \<Rightarrow> char" where
  "lower_char c =
     (let n = (of_char c :: nat)
      in if (65 \<le> n \<and> n \<le> 90) \<or> (192 \<le> n \<and> n \<le> 222 \<and> n \<noteq> 215)
         then char_of (n + 32) else c)"

definition lower :: "string \<Rightarrow> string" where
  "lower s = map lower_char s"

text \<open>\<open>str(n)\<close> for a Python integer.\<close>

definition digit_char :: "nat \<Rightarrow> char" where
  "digit_char d = char_of (48 + d)"

function str_nat :: "nat \<Rightarrow> string" where
  "str_nat n = (if n < 10 then [digit_char n] else str_nat (n div 10) @ [digit_char (n mod 10)])"
  by pat_completeness auto
termination
  by (relation "measure id") auto

declare str_nat.simps [simp del]

definition str_int :: "int \<Rightarrow> string" where
  "str_int i = (if i < 0 then CHR ''-'' # str_nat (nat (- i)) else str_nat (nat i))"

text \<open>\<open>Series.astype(str)\<close> on one cell: NaN becomes the text \<open>nan\<close>.\<close>

fun astype_str :: "cell \<Rightarrow> string" where
  "astype_str NaN = ''nan''"
| "astype_str (IntC i) = str_int i"
| "astype_str (StrC s) = s"

text \<open>The elementwise test \<open>column == text\<close> against a Python string.\<close>

fun cell_eq_str :: "cell \<Rightarrow> string \<Rightarrow> bool" where
  "cell_eq_str (StrC s) t = (s = t)"
| "cell_eq_str _ t = False"

text \<open>\<open>int(x)\<close> of a string: surrounding whitespace, an optional sign, decimal digits
  with single underscores between them, at most 4300 digits (the default limit of
  CPython 3.11). The whitespace that \<open>int\<close> skips is narrower than that of
  \<open>str.strip()\<close>: the separators 28 to 31 are not skipped. \<open>None\<close> is the ValueError.\<close>

definition is_digit :: "char \<Rightarrow> bool" where
  "is_digit c = (48 \<le> (of_char c :: nat) \<and> (of_char c :: nat) \<le> 57)"

definition is_int_space :: "char \<Rightarrow> bool" where
  "is_int_space c = ((of_char c :: nat) \<in> {9, 10, 11, 12, 13, 32, 133, 160})"

fun digits_body_ok :: "bool \<Rightarrow> string \<Rightarrow> bool" where
  "digits_body_ok prev_digit [] = prev_digit"
| "digits_body_ok prev_digit (c # cs) =
     (if is_digit c then digits_body_ok True cs
      else if c = CHR ''_'' \<and> prev_digit then digits_body_ok False cs
      else False)"

definition digits_value :: "string \<Rightarrow> int" where
  "digits_value s = foldl (\<lambda>acc c. 10 * acc + ((of_char c :: int) - 48)) 0 (filter is_digit s)"

definition py_int_of_str :: "string \<Rightarrow> int option" where
  "py_int_of_str s =
     (let t = rev (dropWhile is_int_space (rev (dropWhile is_int_space s)));
          neg = (t \<noteq> [] \<and> hd t = CHR ''-'');
          body = (if t \<noteq> [] \<and> (hd t = CHR ''-'' \<or> hd t = CHR ''+'') then tl t else t)
      in if digits_body_ok False body \<and> length (filter is_digit body) \<le> 4300
         then Some (if neg then - digits_value body else digits_value body)
         else None)"

fun py_int :: "cell \<Rightarrow> int option" where
  "py_int NaN = None"
| "py_int (IntC i) = Some i"
| "py_int (StrC s) = py_int_of_str s"

text \<open>Python's \<open>a >= b\<close>; \<open>None\<close> is the TypeError of comparing a string with a number.\<close>

fun str_ge :: "string \<Rightarrow> string \<Rightarrow> bool" where
  "str_ge s [] = True"
| "str_ge [] (b # bs) = False"
| "str_ge (a # as) (b # bs) =
     (if a = b then str_ge as bs else (of_char b :: nat) < of_char a)"

fun py_ge :: "cell \<Rightarrow> cell \<Rightarrow> bool option" where
  "py_ge (IntC a) (IntC b) = Some (b \<le> a)"
| "py_ge (StrC a) (StrC b) = Some (str_ge a b)"
| "py_ge (StrC a) (IntC b) = None"
| "py_ge (StrC a) NaN = None"
| "py_ge (IntC a) (StrC b) = None"
| "py_ge NaN (StrC b) = None"
| "py_ge (IntC a) NaN = Some False"
| "py_ge NaN (IntC b) = Some False"
| "py_ge NaN NaN = Some False"

text \<open>\<open>Series.max()\<close> of an object column without missing values: the running maximum
  keeps the left value when it is \<open>>=\<close> the next one.\<close>

fun object_max :: "cell \<Rightarrow> cell list \<Rightarrow> cell option" where
  "object_max m [] = Some m"
| "object_max m (c # cs) =
     (case py_ge m c of None \<Rightarrow> None
      | Some b \<Rightarrow> object_max (if b then m else c) cs)"

record employee =
  Row_ID :: cell
  Employee_ID :: cell
  Name :: cell
  Extension :: cell
  Department :: cell
  Cell_Number :: cell
  Location :: cell
  Status :: cell
  Notes :: cell
  Last_Updated :: cell

record dept =
  Dept_ID :: string
  Department_Name :: string
  Description :: string

section \<open>Identifier allocation\<close>

text \<open>\<open>next_row_id\<close>: both \<open>except\<close> paths return the row count plus one.\<close>

definition next_row_id :: "employee list \<Rightarrow> int" where
  "next_row_id emps =
     (if emps = [] then 1
      else case filter (\<lambda>c. c \<noteq> NaN) (map Row_ID emps) of
        [] \<Rightarrow> 1
      | c # cs \<Rightarrow>
          (case object_max c cs of
             None \<Rightarrow> int (length emps) + 1
           | Some m \<Rightarrow>
               (case py_int m of
                  None \<Rightarrow> int (length emps) + 1
                | Some n \<Rightarrow> n + 1)))"

text \<open>\<open>next_dept_id\<close>: the first run of digits of each Dept ID, as 64-bit integers.\<close>

definition extract_digits :: "string \<Rightarrow> string option" where
  "extract_digits s =
     (case takeWhile is_digit (dropWhile (\<lambda>c. \<not> is_digit c) s) of
        [] \<Rightarrow> None
      | d # ds \<Rightarrow> Some (d # ds))"

definition next_dept_id :: "dept list \<Rightarrow> string" where
  "next_dept_id depts =
     (case List.map_filter (\<lambda>d. extract_digits (Dept_ID d)) depts of
        [] \<Rightarrow> ''1''
      | x # xs \<Rightarrow>
          (let vals = map digits_value (x # xs)
           in if list_ex (\<lambda>v. 9223372036854775807 < v) vals
              then str_nat (length depts + 1)
              else (let r = foldl max (digits_value x) (map digits_value xs) + 1
                    in str_int (if 9223372036854775807 < r
                                then r - 18446744073709551616 else r))))"

section \<open>Session state and outcomes\<close>

record session =
  df_emp :: "employee list"
  df_dept :: "dept list"

datatype error =
    NameRequired
  | ExtensionRequired
  | EmployeeIdExists string
  | DeptNameRequired
  | DeptExists string
  | Incomplete "string list"
  | KeyError
  | NoChanges
  | FormNotShown

section \<open>Quick Add: employee and department forms\<close>

record emp_form =
  new_empid :: string
  new_name :: string
  new_extension :: string
  new_department :: string
  new_cell :: string
  new_location :: string
  new_status :: string
  new_notes :: string

text \<open>The submit branch of \<open>add_emp_form\<close>; \<open>now\<close> is \<open>datetime.utcnow().isoformat()\<close>.
  The tests \<open>not new_name\<close> and \<open>not new_extension\<close> are tests for the empty string.\<close>

definition add_emp_form :: "string \<Rightarrow> session \<Rightarrow> emp_form \<Rightarrow> error option \<times> session" where
  "add_emp_form now st f =
     (if new_name f = [] then (Some NameRequired, st)
      else if new_extension f = [] then (Some ExtensionRequired, st)
      else
        (let eid = strip (new_empid f)
         in if eid \<noteq> [] \<and> eid \<in> set (map (\<lambda>e. astype_str (Employee_ID e)) (df_emp st))
            then (Some (EmployeeIdExists eid), st)
            else
              (let row_id = next_row_id (df_emp st);
                   new_row = \<lparr>Row_ID = IntC row_id,
                              Employee_ID = StrC eid,
                              Name = StrC (new_name f),
                              Extension = StrC (new_extension f),
                              Department = StrC (new_department f),
                              Cell_Number = StrC (strip (new_cell f)),
                              Location = StrC (strip (new_location f)),
                              Status = StrC (new_status f),
                              Notes = StrC (strip (new_notes f)),
                              Last_Updated = StrC now\<rparr>
               in (None, st\<lparr>df_emp := df_emp st @ [new_row]\<rparr>))))"

text \<open>The submit branch of \<open>add_dept_form\<close>.\<close>

definition add_dept_form :: "session \<Rightarrow> string \<Rightarrow> string \<Rightarrow> error option \<times> session" where
  "add_dept_form st dname ddesc =
     (if strip dname = [] then (Some DeptNameRequired, st)
      else if lower (strip dname) \<in> set (map (\<lambda>d. lower (Department_Name d)) (df_dept st))
      then (Some (DeptExists (strip dname)), st)
      else
        (let did = next_dept_id (df_dept st)
         in (None, st\<lparr>df_dept := df_dept st @
               [\<lparr>Dept_ID = did, Department_Name = strip dname, Description = strip ddesc\<rparr>]\<rparr>)))"

section \<open>Edit / Delete Department form\<close>

text \<open>The form is shown only while the selected index is in the table. The Save branch
  compares the employees' Department with the old name by \<open>==\<close>, without trimming.\<close>

definition edit_dept_save :: "session \<Rightarrow> nat \<Rightarrow> string \<Rightarrow> string \<Rightarrow> error option \<times> session" where
  "edit_dept_save st idx dn dd =
     (if \<not> idx < length (df_dept st) then (Some FormNotShown, st)
      else
        (let old_dept_name = Department_Name (df_dept st ! idx)
         in if strip dn = [] then (Some DeptNameRequired, st)
            else if lower (strip dn) \<noteq> lower old_dept_name
                    \<and> lower (strip dn) \<in> set (map (\<lambda>d. lower (Department_Name d)) (df_dept st))
            then (Some (DeptExists (strip dn)), st)
            else
              (let depts = (df_dept st)[idx := (df_dept st ! idx)
                              \<lparr>Department_Name := strip dn, Description := strip dd\<rparr>];
                   emps = (if old_dept_name \<noteq> strip dn
                           then map (\<lambda>e. if cell_eq_str (Department e) old_dept_name
                                         then e\<lparr>Department := StrC (strip dn)\<rparr> else e) (df_emp st)
                           else df_emp st)
               in (None, \<lparr>df_emp = emps, df_dept = depts\<rparr>))))"

definition edit_dept_delete :: "session \<Rightarrow> nat \<Rightarrow> error option \<times> session" where
  "edit_dept_delete st idx =
     (if \<not> idx < length (df_dept st) then (Some FormNotShown, st)
      else
        (let dept_name = Department_Name (df_dept st ! idx);
             depts = take idx (df_dept st) @ drop (Suc idx) (df_dept st);
             emps = map (\<lambda>e. if cell_eq_str (Department e) dept_name
                           then e\<lparr>Department := StrC []\<rparr> else e) (df_emp st)
         in (None, \<lparr>df_emp = emps, df_dept = depts\<rparr>)))"

section \<open>Bulk action: Activate All Inactive\<close>

text \<open>The second assignment takes its mask from the table after the first one.\<close>

definition activate_all_inactive :: "string \<Rightarrow> session \<Rightarrow> session" where
  "activate_all_inactive now st =
     (let inactive_count = length (filter (\<lambda>e. cell_eq_str (Status e) ''Inactive'') (df_emp st))
      in if 0 < inactive_count
         then
           (let emps1 = map (\<lambda>e. if cell_eq_str (Status e) ''Inactive''
                               then e\<lparr>Status := StrC ''Active''\<rparr> else e) (df_emp st);
                emps2 = map (\<lambda>e. if cell_eq_str (Status e) ''Active''
                               then e\<lparr>Last_Updated := StrC now\<rparr> else e) emps1
            in st\<lparr>df_emp := emps2\<rparr>)
         else st)"

section \<open>Department reconciliation (Sync Departments)\<close>

text \<open>
  \<open>sync_dept_actions\<close> is a dictionary from an orphaned department name to the chosen
  action; its iteration order is its insertion order, so it is an association list.
  A field read with \<open>.get(key, default)\<close> or tested with \<open>in\<close> is optional.
\<close>

datatype sync_action =
    SCreate "string option" "string option"
  | SMerge string string
  | SMap "string option"
  | SRemove

text \<open>The mask \<open>df_emp["Department"].astype(str).str.strip() == dept_name\<close>.\<close>

definition dept_mask :: "string \<Rightarrow> employee \<Rightarrow> bool" where
  "dept_mask dept_name e = (strip (astype_str (Department e)) = dept_name)"

text \<open>Two \<open>.loc\<close> assignments under one mask: Department, then Last Updated.\<close>

definition repoint :: "string \<Rightarrow> (employee \<Rightarrow> bool) \<Rightarrow> string \<Rightarrow> employee list \<Rightarrow> employee list" where
  "repoint now row_mask v emps =
     map (\<lambda>e. if row_mask e then e\<lparr>Department := StrC v, Last_Updated := StrC now\<rparr> else e) emps"

text \<open>\<open>tuple(sorted([dept_name, merge_target]))\<close>.\<close>

definition merge_key :: "string \<Rightarrow> string \<Rightarrow> string \<times> string" where
  "merge_key dept_name merge_target =
     (if str_ge merge_target dept_name then (dept_name, merge_target)
      else (merge_target, dept_name))"

text \<open>The completeness check of \<open>apply_sync_btn\<close>: the orphaned names without a usable
  action.\<close>

definition incomplete :: "string list \<Rightarrow> (string \<times> sync_action) list \<Rightarrow> string list" where
  "incomplete missing_depts sync_dept_actions =
     filter (\<lambda>dept_name.
        case map_of sync_dept_actions dept_name of
          None \<Rightarrow> True
        | Some (SMap None) \<Rightarrow> True
        | Some _ \<Rightarrow> False) missing_depts"

text \<open>The loop over the actions; \<open>processed_merges\<close> is threaded through. Reading the
  absent target of a map action raises KeyError and leaves what was done so far.\<close>

fun sync_loop ::
  "string \<Rightarrow> (string \<times> sync_action) list \<Rightarrow> (string \<times> string) list \<Rightarrow> session
     \<Rightarrow> error option \<times> session" where
  "sync_loop now [] processed_merges st = (None, st)"
| "sync_loop now ((dept_name, SCreate renamed description) # rest) processed_merges st =
     (let did = next_dept_id (df_dept st);
          final_name = (case renamed of None \<Rightarrow> dept_name | Some n \<Rightarrow> n);
          new_dept = \<lparr>Dept_ID = did, Department_Name = final_name,
                      Description = (case description of
                                       None \<Rightarrow> ''Synced from employee records''
                                     | Some d \<Rightarrow> d)\<rparr>;
          depts = df_dept st @ [new_dept];
          emps = (if final_name \<noteq> dept_name
                  then repoint now (dept_mask dept_name) final_name (df_emp st)
                  else df_emp st)
      in sync_loop now rest processed_merges \<lparr>df_emp = emps, df_dept = depts\<rparr>)"
| "sync_loop now ((dept_name, SMerge merge_target merged_name) # rest) processed_merges st =
     (if merge_key dept_name merge_target \<notin> set processed_merges
      then
        (let did = next_dept_id (df_dept st);
             new_dept = \<lparr>Dept_ID = did, Department_Name = merged_name,
                         Description = ''Merged from: '' @ dept_name @ '', '' @ merge_target\<rparr>;
             depts = df_dept st @ [new_dept];
             emps = repoint now (\<lambda>e. dept_mask dept_name e \<or> dept_mask merge_target e)
                      merged_name (df_emp st)
         in sync_loop now rest (merge_key dept_name merge_target # processed_merges)
              \<lparr>df_emp = emps, df_dept = depts\<rparr>)
      else sync_loop now rest processed_merges st)"
| "sync_loop now ((dept_name, SMap None) # rest) processed_merges st = (Some KeyError, st)"
| "sync_loop now ((dept_name, SMap (Some target)) # rest) processed_merges st =
     sync_loop now rest processed_merges
       (st\<lparr>df_emp := repoint now (dept_mask dept_name) target (df_emp st)\<rparr>)"
| "sync_loop now ((dept_name, SRemove) # rest) processed_merges st =
     sync_loop now rest processed_merges
       (st\<lparr>df_emp := repoint now (dept_mask dept_name) [] (df_emp st)\<rparr>)"

definition apply_sync ::
  "string \<Rightarrow> string list \<Rightarrow> (string \<times> sync_action) list \<Rightarrow> session \<Rightarrow> error option \<times> session" where
  "apply_sync now missing_depts sync_dept_actions st =
     (case incomplete missing_depts sync_dept_actions of
        [] \<Rightarrow> sync_loop now sync_dept_actions [] st
      | d # ds \<Rightarrow> (Some (Incomplete (d # ds)), st))"

text \<open>The orphaned names: stripped, non-empty department texts of the employees other
  than \<open>nan\<close>, without the stripped names of the Departments table.\<close>

definition missing_depts_of :: "employee list \<Rightarrow> dept list \<Rightarrow> string list" where
  "missing_depts_of emps depts =
     (let emp_depts = filter (\<lambda>d. d \<noteq> [] \<and> d \<noteq> ''nan'')
                        (map (\<lambda>e. strip (astype_str (Department e)))
                           (filter (\<lambda>e. Department e \<noteq> NaN) emps));
          existing_depts = filter (\<lambda>d. d \<noteq> [] \<and> d \<noteq> ''nan'')
                             (map (\<lambda>d. strip (Department_Name d)) depts)
      in remdups (filter (\<lambda>d. d \<notin> set existing_depts) emp_depts))"

text \<open>
  The page that fills \<open>sync_dept_actions\<close>. On every run of the script each orphaned
  name is drawn in sorted order with its radio choice and the inputs below it, and
  the choice is stored as the code stores it. A selection box returns one of its
  options or the empty text.
\<close>

datatype sync_widget =
    WCreate bool string string
  | WMerge string bool string
  | WMap string
  | WRemove

fun dict_set :: "'k \<Rightarrow> 'v \<Rightarrow> ('k \<times> 'v) list \<Rightarrow> ('k \<times> 'v) list" where
  "dict_set k v [] = [(k, v)]"
| "dict_set k v ((k', v') # kvs) =
     (if k' = k then (k, v) # kvs else (k', v') # dict_set k v kvs)"

fun insort_str :: "string \<Rightarrow> string list \<Rightarrow> string list" where
  "insort_str x [] = [x]"
| "insort_str x (y # ys) = (if str_ge y x then x # y # ys else y # insort_str x ys)"

definition py_sorted :: "string list \<Rightarrow> string list" where
  "py_sorted xs = foldr insort_str xs []"

definition render_choice ::
  "string list \<Rightarrow> string list \<Rightarrow> string \<Rightarrow> sync_widget
     \<Rightarrow> (string \<times> sync_action) list \<Rightarrow> (string \<times> sync_action) list" where
  "render_choice missing_depts existing_depts dept_name w sync_dept_actions =
     (case w of
        WCreate rename name_input desc \<Rightarrow>
          (let nm = (if rename then name_input else dept_name);
               blocked = (rename \<and> nm \<noteq> [] \<and> strip nm \<noteq> []
                          \<and> lower (strip nm) \<in> set (map lower (filter (\<lambda>n. n \<noteq> []) existing_depts)))
           in if blocked then sync_dept_actions
              else dict_set dept_name
                     (SCreate (Some (if nm \<noteq> [] then strip nm else dept_name))
                        (Some (if desc \<noteq> [] then strip desc else ''Synced from employee records'')))
                     sync_dept_actions)
      | WMerge merge_target use_custom_name name_input \<Rightarrow>
          (let other_missing = filter (\<lambda>d. d \<noteq> dept_name) (py_sorted missing_depts)
           in if other_missing = [] then sync_dept_actions
              else if merge_target \<noteq> [] \<and> merge_target \<in> set other_missing
              then (let merged_name = (if use_custom_name then name_input else merge_target)
                    in dict_set dept_name
                         (SMerge merge_target
                            (if merged_name \<noteq> [] then strip merged_name else merge_target))
                         sync_dept_actions)
              else sync_dept_actions)
      | WMap target_dept \<Rightarrow>
          (if target_dept \<noteq> [] \<and> target_dept \<in> set existing_depts
           then dict_set dept_name (SMap (Some target_dept)) sync_dept_actions
           else sync_dept_actions)
      | WRemove \<Rightarrow> dict_set dept_name SRemove sync_dept_actions)"

definition render_sync_page ::
  "string list \<Rightarrow> string list \<Rightarrow> (string \<Rightarrow> sync_widget)
     \<Rightarrow> (string \<times> sync_action) list \<Rightarrow> (string \<times> sync_action) list" where
  "render_sync_page missing_depts existing_depts widgets sync_dept_actions =
     fold (\<lambda>dept_name. render_choice missing_depts existing_depts dept_name (widgets dept_name))
       (py_sorted missing_depts) sync_dept_actions"

text \<open>The widgets of a first visit: Create New Department, no rename, no description.\<close>

definition default_widgets :: "string \<Rightarrow> sync_widget" where
  "default_widgets dept_name = WCreate False dept_name []"




section \<open>Manage Departments\<close>

text \<open>\<open>dept_manage_actions\<close> maps a Dept ID to the pending action.\<close>

datatype manage_action =
    MRename string string string
  | MMerge string string
  | MMergeTwo string string string string string string
  | MDelete string

text \<open>What the Rename and Delete radio choices store for one department row; \<open>None\<close>
  means that nothing is stored. The tables are the ones read from the workbook.\<close>

definition manage_rename_choice :: "dept list \<Rightarrow> dept \<Rightarrow> string \<Rightarrow> string \<Rightarrow> manage_action option" where
  "manage_rename_choice manage_dept dept_row newname newdesc =
     (let dept_name = strip (Department_Name dept_row);
          dept_desc = strip (Description dept_row)
      in if newname \<noteq> [] \<and> strip newname \<noteq> dept_name
         then
           (let existing_names_lower =
                  map lower (filter (\<lambda>n. n \<noteq> [] \<and> lower (strip n) \<noteq> lower dept_name)
                               (map Department_Name manage_dept))
            in if lower (strip newname) \<in> set existing_names_lower then None
               else Some (MRename dept_name (strip newname)
                            (if newdesc \<noteq> [] then strip newdesc else dept_desc)))
         else None)"

definition manage_delete_choice :: "employee list \<Rightarrow> dept \<Rightarrow> bool \<Rightarrow> manage_action option" where
  "manage_delete_choice manage_emp dept_row confirm =
     (let dept_name = strip (Department_Name dept_row);
          emp_count = length (filter (dept_mask dept_name) manage_emp)
      in if 0 < emp_count then None
         else if confirm then Some (MDelete dept_name)
         else None)"

fun manage_step :: "string \<Rightarrow> string \<times> manage_action \<Rightarrow> session \<Rightarrow> session" where
  "manage_step now (dept_id, MRename old_name newname newdesc) st =
     \<lparr>df_emp = repoint now (dept_mask old_name) newname (df_emp st),
      df_dept = map (\<lambda>d. if Dept_ID d = dept_id
                          then d\<lparr>Department_Name := newname,
                                 Description := (if newdesc \<noteq> [] then newdesc else Description d)\<rparr>
                          else d) (df_dept st)\<rparr>"
| "manage_step now (dept_id, MMerge old_name target) st =
     \<lparr>df_emp = repoint now (dept_mask old_name) target (df_emp st),
      df_dept = filter (\<lambda>d. Dept_ID d \<noteq> dept_id) (df_dept st)\<rparr>"
| "manage_step now (dept_id, MMergeTwo dept1_name dept1_id dept2_name dept2_id final_name delete_id) st =
     (let keep_id = (if delete_id = dept2_id then dept1_id else dept2_id);
          depts = map (\<lambda>d. if Dept_ID d = keep_id
                          then d\<lparr>Department_Name := final_name,
                                 Description := ''Merged from: '' @ dept1_name @ '', '' @ dept2_name\<rparr>
                          else d) (df_dept st);
          emps = repoint now (\<lambda>e. dept_mask dept1_name e \<or> dept_mask dept2_name e)
                   final_name (df_emp st)
      in \<lparr>df_emp = emps, df_dept = filter (\<lambda>d. Dept_ID d \<noteq> delete_id) depts\<rparr>)"
| "manage_step now (dept_id, MDelete old_name) st =
     st\<lparr>df_dept := filter (\<lambda>d. Dept_ID d \<noteq> dept_id) (df_dept st)\<rparr>"

definition apply_manage ::
  "string \<Rightarrow> (string \<times> manage_action) list \<Rightarrow> session \<Rightarrow> error option \<times> session" where
  "apply_manage now dept_manage_actions st =
     (if dept_manage_actions = [] then (Some NoChanges, st)
      else (None, fold (manage_step now) dept_manage_actions st))"

section \<open>Bulk import\<close>

text \<open>A row of the preview (\<open>new_emp\<close>): its mapped fields are stripped strings.\<close>

record new_emp =
  n_Row_ID :: int
  n_File_Row :: int
  n_Employee_ID :: string
  n_Name :: string
  n_Extension :: string
  n_Department :: string
  n_Cell_Number :: string
  n_Location :: string
  n_Status :: string
  n_Notes :: string
  n_Last_Updated :: string

datatype bulk_action = BCreate string | BMap string | BSkip

datatype row_class = RError | RDuplicate | RClean

text \<open>Validation and duplicate detection of one row against the tracking sets.\<close>

definition classify :: "string set \<Rightarrow> string set \<Rightarrow> new_emp \<Rightarrow> row_class" where
  "classify existing_emp_ids existing_extensions r =
     (let row_errors = (strip (n_Name r) = [] \<or> strip (n_Extension r) = []);
          emp_id = strip (n_Employee_ID r);
          extension = strip (n_Extension r);
          duplicate_issues = ((emp_id \<noteq> [] \<and> emp_id \<in> existing_emp_ids)
                              \<or> (extension \<noteq> [] \<and> extension \<in> existing_extensions))
      in if row_errors then RError
         else if duplicate_issues then RDuplicate
         else RClean)"

text \<open>The preview loop: the clean, duplicate and error records, in file order.\<close>

fun preview_loop ::
  "int \<Rightarrow> new_emp list \<Rightarrow> string set \<Rightarrow> string set
     \<Rightarrow> new_emp list \<Rightarrow> new_emp list \<Rightarrow> new_emp list
     \<Rightarrow> new_emp list \<times> new_emp list \<times> new_emp list" where
  "preview_loop base [] ids exts preview_data duplicate_records error_records =
     (preview_data, duplicate_records, error_records)"
| "preview_loop base (row # rows) ids exts preview_data duplicate_records error_records =
     (let r = row\<lparr>n_Row_ID := base + int (length preview_data) + int (length duplicate_records)\<rparr>
      in case classify ids exts r of
           RError \<Rightarrow>
             preview_loop base rows ids exts preview_data duplicate_records (error_records @ [r])
         | RDuplicate \<Rightarrow>
             preview_loop base rows ids exts preview_data (duplicate_records @ [r]) error_records
         | RClean \<Rightarrow>
             preview_loop base rows
               (if strip (n_Employee_ID r) \<noteq> [] then insert (strip (n_Employee_ID r)) ids else ids)
               (if strip (n_Extension r) \<noteq> [] then insert (strip (n_Extension r)) exts else exts)
               (preview_data @ [r]) duplicate_records error_records)"

definition bulk_preview :: "employee list \<Rightarrow> new_emp list \<Rightarrow> new_emp list \<times> new_emp list \<times> new_emp list" where
  "bulk_preview emps rows =
     preview_loop (next_row_id emps) rows
       (set (map (\<lambda>e. astype_str (Employee_ID e)) emps))
       (set (map (\<lambda>e. astype_str (Extension e)) emps)) [] [] []"

text \<open>The commit (\<open>bulk_import_btn\<close>): departments first, with an exact membership test.\<close>

fun bulk_create_depts :: "(string \<times> bulk_action) list \<Rightarrow> dept list \<Rightarrow> dept list" where
  "bulk_create_depts [] depts = depts"
| "bulk_create_depts ((dept_name, BCreate description) # rest) depts =
     (if dept_name \<notin> set (map Department_Name depts)
      then bulk_create_depts rest
             (depts @ [\<lparr>Dept_ID = next_dept_id depts, Department_Name = dept_name,
                        Description = description\<rparr>])
      else bulk_create_depts rest depts)"
| "bulk_create_depts ((dept_name, BMap target) # rest) depts = bulk_create_depts rest depts"
| "bulk_create_depts ((dept_name, BSkip) # rest) depts = bulk_create_depts rest depts"

definition emp_copy :: "new_emp \<Rightarrow> employee" where
  "emp_copy r =
     \<lparr>Row_ID = IntC (n_Row_ID r),
      Employee_ID = StrC (n_Employee_ID r),
      Name = StrC (n_Name r),
      Extension = StrC (n_Extension r),
      Department = StrC (n_Department r),
      Cell_Number = StrC (n_Cell_Number r),
      Location = StrC (n_Location r),
      Status = StrC (n_Status r),
      Notes = StrC (n_Notes r),
      Last_Updated = StrC (n_Last_Updated r)\<rparr>"

fun first_index :: "('a \<Rightarrow> bool) \<Rightarrow> 'a list \<Rightarrow> nat option" where
  "first_index P [] = None"
| "first_index P (x # xs) =
     (if P x then Some 0 else map_option Suc (first_index P xs))"

text \<open>The Replace Existing branch: the row is looked up by Employee ID when the record
  has one, and by Extension only when its Employee ID is empty.\<close>

definition overwrite :: "string \<Rightarrow> new_emp \<Rightarrow> employee \<Rightarrow> employee" where
  "overwrite now dup_emp e =
     e\<lparr>Employee_ID := StrC (n_Employee_ID dup_emp),
       Name := StrC (n_Name dup_emp),
       Extension := StrC (n_Extension dup_emp),
       Department := StrC (n_Department dup_emp),
       Cell_Number := StrC (n_Cell_Number dup_emp),
       Location := StrC (n_Location dup_emp),
       Status := StrC (n_Status dup_emp),
       Notes := StrC (n_Notes dup_emp),
       Last_Updated := StrC (n_Last_Updated dup_emp)\<rparr>\<lparr>Last_Updated := StrC now\<rparr>"

definition replace_existing :: "string \<Rightarrow> new_emp \<Rightarrow> employee list \<Rightarrow> employee list" where
  "replace_existing now dup_emp emps =
     (let emp_id = strip (n_Employee_ID dup_emp);
          extension = strip (n_Extension dup_emp);
          existing_idx =
            (if emp_id \<noteq> [] then first_index (\<lambda>e. astype_str (Employee_ID e) = emp_id) emps
             else if extension \<noteq> [] then first_index (\<lambda>e. astype_str (Extension e) = extension) emps
             else None)
      in case existing_idx of
           None \<Rightarrow> emps
         | Some idx \<Rightarrow> emps[idx := overwrite now dup_emp (emps ! idx)])"

text \<open>\<open>bulk_selections\<close> maps the file row of a duplicate to its two check boxes.\<close>

definition handle_duplicate ::
  "string \<Rightarrow> (int \<rightharpoonup> bool \<times> bool) \<Rightarrow> new_emp \<Rightarrow> employee list \<Rightarrow> employee list" where
  "handle_duplicate now bulk_selections dup_emp emps =
     (let selection = (case bulk_selections (n_File_Row dup_emp) of
                         None \<Rightarrow> (False, False) | Some sel \<Rightarrow> sel)
      in if fst selection \<and> \<not> snd selection then emps @ [emp_copy dup_emp]
         else if snd selection \<and> \<not> fst selection then replace_existing now dup_emp emps
         else emps)"

definition bulk_import_commit ::
  "string \<Rightarrow> (string \<times> bulk_action) list \<Rightarrow> new_emp list \<Rightarrow> new_emp list
     \<Rightarrow> (int \<rightharpoonup> bool \<times> bool) \<Rightarrow> session \<Rightarrow> session" where
  "bulk_import_commit now bulk_dept_actions preview_data duplicate_records bulk_selections st =
     (let depts = bulk_create_depts bulk_dept_actions (df_dept st);
          emps1 = df_emp st @ map emp_copy preview_data;
          emps2 = fold (handle_duplicate now bulk_selections) duplicate_records emps1
      in \<lparr>df_emp = emps2, df_dept = depts\<rparr>)"

text \<open>Step 4 of the import: the department texts of the file that are not the stripped
  name of a department.\<close>

definition missing_departments :: "string list \<Rightarrow> dept list \<Rightarrow> string list" where
  "missing_departments import_departments depts =
     remdups (filter (\<lambda>d. d \<notin> set (map (\<lambda>x. strip (Department_Name x)) depts))
                (filter (\<lambda>d. d \<noteq> []) (map strip import_departments)))"

section \<open>Example rows\<close>

text \<open>An employee row with the given Row ID, Employee ID, Name, Extension, Department,
  Status and Last Updated, and empty text in the other columns.\<close>

definition mk_employee ::
  "cell \<Rightarrow> string \<Rightarrow> string \<Rightarrow> string \<Rightarrow> string \<Rightarrow> string \<Rightarrow> string \<Rightarrow> employee" where
  "mk_employee rid eid nm ext dep stat upd =
     \<lparr>Row_ID = rid, Employee_ID = StrC eid, Name = StrC nm, Extension = StrC ext,
      Department = StrC dep, Cell_Number = StrC [], Location = StrC [], Status = StrC stat,
      Notes = StrC [], Last_Updated = StrC upd\<rparr>"

text \<open>The invariant of the Departments table: no two names are equal up to case.\<close>

definition names_unique_ci :: "dept list \<Rightarrow> bool" where
  "names_unique_ci depts = distinct (map (\<lambda>d. lower (Department_Name d)) depts)"

text \<open>The integer Row IDs of a table, in row order.\<close>

definition int_ids :: "employee list \<Rightarrow> int list" where
  "int_ids emps = List.map_filter (\<lambda>e. case Row_ID e of IntC n \<Rightarrow> Some n | _ \<Rightarrow> None) emps"

lemmas str_eval = strip_def is_space_def is_int_space_def lower_def lower_char_def is_digit_def
  digits_value_def extract_digits_def next_dept_id_def str_int_def str_nat.simps digit_char_def
  List.map_filter_def mk_employee_def

section \<open>Reconciliation: the completeness check\<close>

lemma incomplete_mem:
  "d \<in> set (incomplete missing acts) \<longleftrightarrow>
     d \<in> set missing \<and> (map_of acts d = None \<or> map_of acts d = Some (SMap None))"
  by (auto simp: incomplete_def split: option.splits sync_action.splits)

text \<open>The check itself: an orphaned name without a stored action, or with a stored map
  action without target, makes Apply Changes report it and return the state unchanged.\<close>

lemma apply_sync_incomplete_fails:
  assumes "d \<in> set missing"
    and "map_of acts d = None \<or> map_of acts d = Some (SMap None)"
  shows "\<exists>ds. apply_sync now missing acts st = (Some (Incomplete ds), st) \<and> d \<in> set ds"
proof -
  from assms have mem: "d \<in> set (incomplete missing acts)"
    by (simp add: incomplete_mem)
  then obtain x xs where "incomplete missing acts = x # xs"
    by (cases "incomplete missing acts") auto
  with mem show ?thesis
    by (auto simp: apply_sync_def)
qed

lemma incomplete_Nil:
  assumes "set missing \<subseteq> fst ` set acts" and "\<forall>x \<in> set acts. snd x \<noteq> SMap None"
  shows "incomplete missing acts = []"
proof -
  have "\<And>d. d \<in> set missing \<Longrightarrow> \<exists>v. map_of acts d = Some v \<and> v \<noteq> SMap None"
  proof -
    fix d assume "d \<in> set missing"
    with assms(1) have "d \<in> fst ` set acts" by blast
    then obtain v where v: "map_of acts d = Some v"
      by (cases "map_of acts d") (auto simp: map_of_eq_None_iff)
    then have "(d, v) \<in> set acts" by (rule map_of_SomeD)
    with assms(2) have "v \<noteq> SMap None" by force
    with v show "\<exists>v. map_of acts d = Some v \<and> v \<noteq> SMap None" by blast
  qed
  then show ?thesis
    by (fastforce simp: incomplete_def filter_empty_conv split: option.splits sync_action.splits)
qed

text \<open>The page stores an action for every orphaned name when it is first drawn, never
  stores a map action without target and never removes an action: after a first visit
  the check finds nothing incomplete, whatever the widgets show.\<close>

lemma dict_set_keys: "fst ` set (dict_set k v kvs) = insert k (fst ` set kvs)"
proof (induction kvs)
  case Nil
  then show ?case by simp
next
  case (Cons kv kvs)
  obtain k' v' where kv: "kv = (k', v')" by (cases kv)
  show ?case
  proof (cases "k' = k")
    case True
    with kv show ?thesis by simp
  next
    case False
    with kv Cons show ?thesis by (simp add: insert_commute)
  qed
qed

lemma dict_set_entries: "set (dict_set k v kvs) \<subseteq> insert (k, v) (set kvs)"
proof (induction kvs)
  case Nil
  then show ?case by simp
next
  case (Cons kv kvs)
  obtain k' v' where kv: "kv = (k', v')" by (cases kv)
  with Cons show ?case by (cases "k' = k") auto
qed

lemma render_choice_keeps_keys:
  "fst ` set acts \<subseteq> fst ` set (render_choice ms ex d w acts)"
  by (cases w) (auto simp: render_choice_def dict_set_keys Let_def)

lemma dict_set_no_targetless_map:
  assumes "\<forall>x \<in> set acts. snd x \<noteq> SMap None" and "v \<noteq> SMap None"
  shows "\<forall>x \<in> set (dict_set d v acts). snd x \<noteq> SMap None"
proof
  fix x assume "x \<in> set (dict_set d v acts)"
  with dict_set_entries [of d v acts] have "x = (d, v) \<or> x \<in> set acts" by blast
  with assms show "snd x \<noteq> SMap None" by auto
qed

lemma render_choice_no_targetless_map:
  assumes "\<forall>x \<in> set acts. snd x \<noteq> SMap None"
  shows "\<forall>x \<in> set (render_choice ms ex d w acts). snd x \<noteq> SMap None"
proof -
  have c: "\<And>v. v \<noteq> SMap None \<Longrightarrow> \<forall>x \<in> set (dict_set d v acts). snd x \<noteq> SMap None"
    using assms by (rule dict_set_no_targetless_map)
  have c1: "\<And>r ds. \<forall>x \<in> set (dict_set d (SCreate r ds) acts). snd x \<noteq> SMap None"
    by (rule c) simp
  have c2: "\<And>t m. \<forall>x \<in> set (dict_set d (SMerge t m) acts). snd x \<noteq> SMap None"
    by (rule c) simp
  have c3: "\<And>t. \<forall>x \<in> set (dict_set d (SMap (Some t)) acts). snd x \<noteq> SMap None"
    by (rule c) simp
  have c4: "\<forall>x \<in> set (dict_set d SRemove acts). snd x \<noteq> SMap None"
    by (rule c) simp
  show ?thesis
  proof (cases w)
    case (WCreate rename nm desc)
    then show ?thesis
      unfolding render_choice_def Let_def using assms c1 by (simp split: if_splits)
  next
    case (WMerge tgt custom nm)
    then show ?thesis
      unfolding render_choice_def Let_def using assms c2 by (simp split: if_splits)
  next
    case (WMap tgt)
    then show ?thesis
      unfolding render_choice_def Let_def using assms c3 by (simp split: if_splits)
  next
    case WRemove
    then show ?thesis
      unfolding render_choice_def Let_def using c4 by simp
  qed
qed

lemma fold_render_keeps:
  "fst ` set acts \<subseteq> fst ` set (fold (\<lambda>d. render_choice ms ex d (ws d)) ds acts)"
proof (induction ds arbitrary: acts)
  case Nil
  then show ?case by simp
next
  case (Cons d ds)
  have "fst ` set acts \<subseteq> fst ` set (render_choice ms ex d (ws d) acts)"
    by (rule render_choice_keeps_keys)
  also have "\<dots> \<subseteq> fst ` set (fold (\<lambda>d. render_choice ms ex d (ws d)) ds
                         (render_choice ms ex d (ws d) acts))"
    by (rule Cons.IH)
  finally show ?case by simp
qed

lemma fold_render_no_targetless_map:
  "\<forall>x \<in> set acts. snd x \<noteq> SMap None \<Longrightarrow>
   \<forall>x \<in> set (fold (\<lambda>d. render_choice ms ex d (ws d)) ds acts). snd x \<noteq> SMap None"
proof (induction ds arbitrary: acts)
  case Nil
  then show ?case by simp
next
  case (Cons d ds)
  from render_choice_no_targetless_map [OF Cons.prems]
  have "\<forall>x \<in> set (render_choice ms ex d (ws d) acts). snd x \<noteq> SMap None" .
  from Cons.IH [OF this] show ?case by simp
qed

lemma fold_render_default_keys:
  "set ds \<subseteq> fst ` set (fold (\<lambda>d. render_choice ms ex d (default_widgets d)) ds acts)"
proof (induction ds arbitrary: acts)
  case Nil
  then show ?case by simp
next
  case (Cons d ds)
  let ?acts1 = "render_choice ms ex d (default_widgets d) acts"
  have "d \<in> fst ` set ?acts1"
    by (simp add: render_choice_def default_widgets_def dict_set_keys Let_def)
  moreover have "fst ` set ?acts1
                 \<subseteq> fst ` set (fold (\<lambda>d. render_choice ms ex d (default_widgets d)) ds ?acts1)"
    by (rule fold_render_keeps)
  ultimately have "d \<in> fst ` set (fold (\<lambda>d. render_choice ms ex d (default_widgets d)) ds ?acts1)"
    by blast
  with Cons.IH [of ?acts1] show ?case by simp
qed

lemma set_insort_str: "set (insort_str x xs) = insert x (set xs)"
  by (induction xs) auto

lemma set_py_sorted: "set (py_sorted xs) = set xs"
  by (induction xs) (simp_all add: py_sorted_def set_insort_str)

lemma sync_page_never_incomplete:
  "incomplete missing
     (render_sync_page missing ex ws (render_sync_page missing ex default_widgets [])) = []"
proof -
  let ?first = "render_sync_page missing ex default_widgets []"
  have k1: "set missing \<subseteq> fst ` set ?first"
    using fold_render_default_keys [of "py_sorted missing" missing ex "[]"]
    by (simp add: render_sync_page_def set_py_sorted)
  have "fst ` set ?first \<subseteq> fst ` set (render_sync_page missing ex ws ?first)"
    unfolding render_sync_page_def by (rule fold_render_keeps)
  with k1 have keys: "set missing \<subseteq> fst ` set (render_sync_page missing ex ws ?first)"
    by blast
  have "\<forall>x \<in> set ?first. snd x \<noteq> SMap None"
    unfolding render_sync_page_def by (rule fold_render_no_targetless_map) simp
  then have "\<forall>x \<in> set (render_sync_page missing ex ws ?first). snd x \<noteq> SMap None"
    unfolding render_sync_page_def by (rule fold_render_no_targetless_map)
  with keys show ?thesis by (rule incomplete_Nil)
qed

text \<open>
  Claim C6. The claim says that Apply Changes fails as a whole while an orphaned name
  has no chosen resolution. On the page, the orphaned name Ops gets the action Create
  New Department when it is first drawn. Choosing Map to Existing Department without
  selecting a target stores nothing and leaves that action in place: Apply Changes
  passes the check and creates the department Ops.
\<close>

theorem sync_page_stale_action_applied:
  "missing_depts_of [mk_employee (IntC 1) ''E1'' ''Ann'' ''1111'' ''Ops'' ''Active'' ''t0'']
     [\<lparr>Dept_ID = ''1'', Department_Name = ''Operations'', Description = []\<rparr>] = [''Ops'']
   \<and> render_sync_page [''Ops''] [''Operations''] default_widgets []
       = [(''Ops'', SCreate (Some ''Ops'') (Some ''Synced from employee records''))]
   \<and> render_sync_page [''Ops''] [''Operations''] (\<lambda>d. WMap [])
        [(''Ops'', SCreate (Some ''Ops'') (Some ''Synced from employee records''))]
       = [(''Ops'', SCreate (Some ''Ops'') (Some ''Synced from employee records''))]
   \<and> apply_sync ''t1'' [''Ops'']
        (render_sync_page [''Ops''] [''Operations''] (\<lambda>d. WMap [])
           (render_sync_page [''Ops''] [''Operations''] default_widgets []))
        \<lparr>df_emp = [mk_employee (IntC 1) ''E1'' ''Ann'' ''1111'' ''Ops'' ''Active'' ''t0''],
         df_dept = [\<lparr>Dept_ID = ''1'', Department_Name = ''Operations'', Description = []\<rparr>]\<rparr>
     = (None,
        \<lparr>df_emp = [mk_employee (IntC 1) ''E1'' ''Ann'' ''1111'' ''Ops'' ''Active'' ''t0''],
         df_dept = [\<lparr>Dept_ID = ''1'', Department_Name = ''Operations'', Description = []\<rparr>,
                    \<lparr>Dept_ID = ''2'', Department_Name = ''Ops'',
                      Description = ''Synced from employee records''\<rparr>]\<rparr>)"
  by code_simp

section \<open>Activate All Inactive\<close>

text \<open>What the operation does to each row when some row is Inactive.\<close>

lemma activate_all_inactive_row:
  assumes "i < length (df_emp st)"
    and "\<exists>e \<in> set (df_emp st). cell_eq_str (Status e) ''Inactive''"
  shows "df_emp (activate_all_inactive now st) ! i =
     (if cell_eq_str (Status (df_emp st ! i)) ''Inactive''
      then (df_emp st ! i)\<lparr>Status := StrC ''Active'', Last_Updated := StrC now\<rparr>
      else if cell_eq_str (Status (df_emp st ! i)) ''Active''
      then (df_emp st ! i)\<lparr>Last_Updated := StrC now\<rparr>
      else df_emp st ! i)"
proof -
  from assms(2) have "filter (\<lambda>e. cell_eq_str (Status e) ''Inactive'') (df_emp st) \<noteq> []"
    by (simp add: filter_empty_conv)
  with assms(1) show ?thesis
    by (simp add: activate_all_inactive_def Let_def)
qed

text \<open>
  Claim C8. The claim says that only the rows that were Inactive are stamped. On a table
  with one Active and one Inactive row the operation stamps both rows: the row that
  was already Active loses its previous Last Updated value.
\<close>

theorem activate_all_inactive_stamps_active_rows:
  "activate_all_inactive ''t1''
     \<lparr>df_emp = [mk_employee (IntC 1) ''E1'' ''Ann'' ''1111'' ''Ops'' ''Active'' ''t0'',
                mk_employee (IntC 2) ''E2'' ''Bob'' ''2222'' ''Ops'' ''Inactive'' ''t0''],
      df_dept = []\<rparr>
   = \<lparr>df_emp = [mk_employee (IntC 1) ''E1'' ''Ann'' ''1111'' ''Ops'' ''Active'' ''t1'',
                mk_employee (IntC 2) ''E2'' ''Bob'' ''2222'' ''Ops'' ''Active'' ''t1''],
      df_dept = []\<rparr>"
  by (simp add: activate_all_inactive_def mk_employee_def)

section \<open>Bulk import: Replace Existing\<close>

text \<open>The row replaced is the first match, and its Row ID is kept.\<close>

lemma first_index_Some:
  "first_index P xs = Some i \<Longrightarrow> i < length xs \<and> P (xs ! i) \<and> (\<forall>j < i. \<not> P (xs ! j))"
proof (induction xs arbitrary: i)
  case Nil
  then show ?case by simp
next
  case (Cons x xs)
  show ?case
  proof (cases "P x")
    case True
    with Cons.prems show ?thesis by simp
  next
    case False
    with Cons.prems obtain k where k: "first_index P xs = Some k" "i = Suc k"
      by auto
    from Cons.IH [OF k(1)] False k(2) show ?thesis
      by (auto simp: less_Suc_eq_0_disj)
  qed
qed

lemma overwrite_keeps_row_id: "Row_ID (overwrite now dup_emp e) = Row_ID e"
  by (simp add: overwrite_def)

lemma replace_existing_by_employee_id:
  assumes "strip (n_Employee_ID dup_emp) \<noteq> []"
  shows "replace_existing now dup_emp emps =
     (case first_index (\<lambda>e. astype_str (Employee_ID e) = strip (n_Employee_ID dup_emp)) emps of
        None \<Rightarrow> emps
      | Some idx \<Rightarrow> emps[idx := overwrite now dup_emp (emps ! idx)])"
  using assms by (simp add: replace_existing_def Let_def)

lemma replace_existing_by_extension:
  assumes "strip (n_Employee_ID dup_emp) = []" and "strip (n_Extension dup_emp) \<noteq> []"
  shows "replace_existing now dup_emp emps =
     (case first_index (\<lambda>e. astype_str (Extension e) = strip (n_Extension dup_emp)) emps of
        None \<Rightarrow> emps
      | Some idx \<Rightarrow> emps[idx := overwrite now dup_emp (emps ! idx)])"
  using assms by (simp add: replace_existing_def Let_def)

text \<open>
  Claim C9. The claim says that the lookup falls back to the Extension when no row has
  the record's Employee ID. A record with the new Employee ID E2 and the Extension 1111
  of an existing row is classified as a duplicate; marked Replace Existing, it finds no
  row by Employee ID, does not look at the Extension, and the table stays as it was.
\<close>

theorem replace_existing_no_fallback:
  "classify {''E1''} {''1111''}
     \<lparr>n_Row_ID = 2, n_File_Row = 2, n_Employee_ID = ''E2'', n_Name = ''Bob'',
      n_Extension = ''1111'', n_Department = [], n_Cell_Number = [], n_Location = [],
      n_Status = ''Active'', n_Notes = [], n_Last_Updated = ''t1''\<rparr> = RDuplicate
   \<and> handle_duplicate ''t2'' [2 \<mapsto> (False, True)]
       \<lparr>n_Row_ID = 2, n_File_Row = 2, n_Employee_ID = ''E2'', n_Name = ''Bob'',
        n_Extension = ''1111'', n_Department = [], n_Cell_Number = [], n_Location = [],
        n_Status = ''Active'', n_Notes = [], n_Last_Updated = ''t1''\<rparr>
       [mk_employee (IntC 1) ''E1'' ''Ann'' ''1111'' ''Ops'' ''Active'' ''t0'']
     = [mk_employee (IntC 1) ''E1'' ''Ann'' ''1111'' ''Ops'' ''Active'' ''t0'']"
  by (simp add: classify_def handle_duplicate_def replace_existing_def str_eval)

section \<open>Uniqueness of department names\<close>

text \<open>The Add Department form keeps the names unique up to case.\<close>

lemma add_dept_form_preserves_unique:
  "names_unique_ci (df_dept st) \<Longrightarrow> names_unique_ci (df_dept (snd (add_dept_form st dname ddesc)))"
  by (auto simp: add_dept_form_def names_unique_ci_def Let_def)

text \<open>
  Claim C2. The commit of a bulk import tests the new name against the existing names
  by exact membership. With the department Sales in the table and the department text
  sales in the file, the text counts as missing, is created, and the table then holds
  two names that are equal up to case.
\<close>

theorem bulk_import_creates_case_variant:
  "names_unique_ci [\<lparr>Dept_ID = ''1'', Department_Name = ''Sales'', Description = []\<rparr>]
   \<and> missing_departments [''sales'']
        [\<lparr>Dept_ID = ''1'', Department_Name = ''Sales'', Description = []\<rparr>] = [''sales'']
   \<and> df_dept (bulk_import_commit ''t1'' [(''sales'', BCreate [])]
        [\<lparr>n_Row_ID = 1, n_File_Row = 2, n_Employee_ID = ''E1'', n_Name = ''Ann'',
          n_Extension = ''1111'', n_Department = ''sales'', n_Cell_Number = [], n_Location = [],
          n_Status = ''Active'', n_Notes = [], n_Last_Updated = ''t1''\<rparr>] [] Map.empty
        \<lparr>df_emp = [], df_dept = [\<lparr>Dept_ID = ''1'', Department_Name = ''Sales'', Description = []\<rparr>]\<rparr>)
     = [\<lparr>Dept_ID = ''1'', Department_Name = ''Sales'', Description = []\<rparr>,
        \<lparr>Dept_ID = ''2'', Department_Name = ''sales'', Description = []\<rparr>]
   \<and> \<not> names_unique_ci
        [\<lparr>Dept_ID = ''1'', Department_Name = ''Sales'', Description = []\<rparr>,
         \<lparr>Dept_ID = ''2'', Department_Name = ''sales'', Description = []\<rparr>]"
  by code_simp

text \<open>The reconciliation has the same effect: the employee text sales is orphaned beside
  the department Sales, and Create New Department adds it without any test.\<close>

lemma apply_sync_creates_case_variant:
  "missing_depts_of [mk_employee (IntC 1) ''E1'' ''Ann'' ''1111'' ''sales'' ''Active'' ''t0'']
     [\<lparr>Dept_ID = ''1'', Department_Name = ''Sales'', Description = []\<rparr>] = [''sales'']
   \<and> map Department_Name (df_dept (snd (apply_sync ''t1'' [''sales'']
        [(''sales'', SCreate (Some ''sales'') (Some ''Synced from employee records''))]
        \<lparr>df_emp = [mk_employee (IntC 1) ''E1'' ''Ann'' ''1111'' ''sales'' ''Active'' ''t0''],
         df_dept = [\<lparr>Dept_ID = ''1'', Department_Name = ''Sales'', Description = []\<rparr>]\<rparr>)))
     = [''Sales'', ''sales'']"
  by code_simp

section \<open>Renaming a department\<close>

text \<open>The rename of Manage Departments compares the trimmed text.\<close>

lemma manage_rename_employees:
  "df_emp (manage_step now (dept_id, MRename old_name newname newdesc) st) =
     map (\<lambda>e. if strip (astype_str (Department e)) = old_name
               then e\<lparr>Department := StrC newname, Last_Updated := StrC now\<rparr> else e) (df_emp st)"
  by (simp add: repoint_def dept_mask_def)

text \<open>
  Claim C4. The claim says that the rename reaches every employee whose trimmed
  Department is the old name. The Save branch of the Edit Department form compares
  without trimming: an employee with the text Sales followed by a space keeps it when
  Sales is renamed to Retail, while the rename of Manage Departments repoints the same
  employee.
\<close>

theorem edit_dept_save_skips_untrimmed:
  "edit_dept_save
     \<lparr>df_emp = [mk_employee (IntC 1) ''E1'' ''Ann'' ''1111'' ''Sales '' ''Active'' ''t0''],
      df_dept = [\<lparr>Dept_ID = ''1'', Department_Name = ''Sales'', Description = []\<rparr>]\<rparr>
     0 ''Retail'' []
   = (None,
      \<lparr>df_emp = [mk_employee (IntC 1) ''E1'' ''Ann'' ''1111'' ''Sales '' ''Active'' ''t0''],
       df_dept = [\<lparr>Dept_ID = ''1'', Department_Name = ''Retail'', Description = []\<rparr>]\<rparr>)
   \<and> strip ''Sales '' = ''Sales''
   \<and> manage_rename_choice [\<lparr>Dept_ID = ''1'', Department_Name = ''Sales'', Description = []\<rparr>]
        \<lparr>Dept_ID = ''1'', Department_Name = ''Sales'', Description = []\<rparr> ''Retail'' []
      = Some (MRename ''Sales'' ''Retail'' [])
   \<and> apply_manage ''t1'' [(''1'', MRename ''Sales'' ''Retail'' [])]
       \<lparr>df_emp = [mk_employee (IntC 1) ''E1'' ''Ann'' ''1111'' ''Sales '' ''Active'' ''t0''],
        df_dept = [\<lparr>Dept_ID = ''1'', Department_Name = ''Sales'', Description = []\<rparr>]\<rparr>
     = (None,
        \<lparr>df_emp = [mk_employee (IntC 1) ''E1'' ''Ann'' ''1111'' ''Retail'' ''Active'' ''t1''],
         df_dept = [\<lparr>Dept_ID = ''1'', Department_Name = ''Retail'', Description = []\<rparr>]\<rparr>)"
  by (simp add: edit_dept_save_def manage_rename_choice_def apply_manage_def repoint_def
        dept_mask_def str_eval)

section \<open>Quick Add of an employee\<close>

text \<open>What the form does: it rejects on an empty name, an empty extension or a known
  Employee ID, and then leaves the state as it was; otherwise it appends one row.\<close>

lemma add_emp_form_rejected_iff:
  "fst (add_emp_form now st f) \<noteq> None \<longleftrightarrow>
     new_name f = [] \<or> new_extension f = []
     \<or> (strip (new_empid f) \<noteq> []
         \<and> strip (new_empid f) \<in> set (map (\<lambda>e. astype_str (Employee_ID e)) (df_emp st)))"
  by (auto simp: add_emp_form_def Let_def)

lemma add_emp_form_rejected_unchanged:
  "fst (add_emp_form now st f) \<noteq> None \<Longrightarrow> snd (add_emp_form now st f) = st"
  by (auto simp: add_emp_form_def Let_def split: if_splits)

lemma add_emp_form_accepted_appends:
  "fst (add_emp_form now st f) = None \<Longrightarrow>
   \<exists>row. df_emp (snd (add_emp_form now st f)) = df_emp st @ [row]
         \<and> Row_ID row = IntC (next_row_id (df_emp st))
         \<and> Last_Updated row = StrC now
         \<and> df_dept (snd (add_emp_form now st f)) = df_dept st"
  by (auto simp: add_emp_form_def Let_def split: if_splits)

text \<open>
  Claim C3. The claim says that a blank name is rejected. The form tests the name and
  the extension for the empty string only: a name that is a single space is accepted
  and a row is appended.
\<close>

theorem add_emp_form_accepts_blank_name:
  "strip '' '' = []
   \<and> add_emp_form ''t1''
       \<lparr>df_emp = [mk_employee (IntC 1) ''E1'' ''Ann'' ''1111'' ''Ops'' ''Active'' ''t0''], df_dept = []\<rparr>
       \<lparr>new_empid = [], new_name = '' '', new_extension = ''1234'', new_department = [],
        new_cell = [], new_location = [], new_status = ''Active'', new_notes = []\<rparr>
     = (None,
        \<lparr>df_emp = [mk_employee (IntC 1) ''E1'' ''Ann'' ''1111'' ''Ops'' ''Active'' ''t0'',
                   mk_employee (IntC 2) [] '' '' ''1234'' [] ''Active'' ''t1''],
         df_dept = []\<rparr>)"
  by (simp add: add_emp_form_def next_row_id_def str_eval)

section \<open>The next Row ID\<close>

text \<open>\<open>int\<close> rejects a digit behind the separator 28, which \<open>str.strip()\<close> removes.\<close>

lemma py_int_of_str_separator:
  "py_int_of_str [char_of (28 :: nat), CHR ''7''] = None
   \<and> strip [char_of (28 :: nat), CHR ''7''] = ''7''
   \<and> py_int_of_str '' -0_7 '' = Some (- 7)"
  by code_simp

lemma object_max_ints_fold:
  "object_max (IntC m) (map IntC ns) = Some (IntC (fold max ns m))"
  by (induction ns arbitrary: m) (auto simp: max_def)

lemma object_max_ints:
  "object_max (IntC m) (map IntC ns) = Some (IntC (Max (insert m (set ns))))"
  using Max.set_eq_fold [of m ns] by (simp add: object_max_ints_fold)

lemma object_max_strs:
  "\<forall>c \<in> set (c0 # cs). \<exists>s. c = StrC s \<Longrightarrow> \<exists>m. object_max c0 cs = Some m \<and> m \<in> set (c0 # cs)"
proof (induction cs arbitrary: c0)
  case Nil
  then show ?case by simp
next
  case (Cons c cs)
  from Cons.prems obtain a b where ab: "c0 = StrC a" "c = StrC b" by auto
  let ?m = "if str_ge a b then c0 else c"
  have "\<forall>x \<in> set (?m # cs). \<exists>s. x = StrC s" using Cons.prems by auto
  from Cons.IH [OF this] obtain m where "object_max ?m cs = Some m" "m \<in> set (?m # cs)" by blast
  then show ?case using ab by (auto split: if_splits)
qed

lemma present_ints:
  "\<forall>e \<in> set emps. Row_ID e = NaN \<or> (\<exists>n. Row_ID e = IntC n) \<Longrightarrow>
   filter (\<lambda>c. c \<noteq> NaN) (map Row_ID emps) = map IntC (int_ids emps)"
  by (induction emps) (auto simp: int_ids_def List.map_filter_def)

lemma set_int_ids: "set (int_ids emps) = {n. IntC n \<in> Row_ID ` set emps}"
proof (induction emps)
  case Nil
  then show ?case by (simp add: int_ids_def List.map_filter_def)
next
  case (Cons e emps)
  have "int_ids (e # emps) = (case Row_ID e of IntC n \<Rightarrow> [n] | _ \<Rightarrow> []) @ int_ids emps"
    by (simp add: int_ids_def List.map_filter_def split: cell.splits)
  then show ?case using Cons by (auto split: cell.splits)
qed

lemma present_strs:
  "\<forall>e \<in> set emps. \<exists>s. Row_ID e = StrC s \<Longrightarrow>
   filter (\<lambda>c. c \<noteq> NaN) (map Row_ID emps) = map Row_ID emps"
  by (induction emps) auto

text \<open>
  Claim C1, as the code has it. \<open>next_row_id\<close> returns 1 when every Row ID is missing
  (in particular on the empty table); one plus the maximum when the Row IDs that are
  present are integers; and the number of rows plus one, not 1, when every Row ID is a
  text that \<open>int\<close> rejects.
\<close>

theorem next_row_id_amended:
  "((\<forall>e \<in> set emps. Row_ID e = NaN) \<longrightarrow> next_row_id emps = 1)
   \<and> ((\<exists>e \<in> set emps. Row_ID e \<noteq> NaN)
        \<and> (\<forall>e \<in> set emps. Row_ID e = NaN \<or> (\<exists>n. Row_ID e = IntC n))
      \<longrightarrow> next_row_id emps = Max {n. IntC n \<in> Row_ID ` set emps} + 1)
   \<and> (emps \<noteq> [] \<and> (\<forall>e \<in> set emps. \<exists>s. Row_ID e = StrC s \<and> py_int_of_str s = None)
      \<longrightarrow> next_row_id emps = int (length emps) + 1)"
proof (intro conjI impI)
  assume "\<forall>e \<in> set emps. Row_ID e = NaN"
  then have "filter (\<lambda>c. c \<noteq> NaN) (map Row_ID emps) = []"
    by (induction emps) auto
  then show "next_row_id emps = 1"
    by (simp add: next_row_id_def)
next
  assume h: "(\<exists>e \<in> set emps. Row_ID e \<noteq> NaN)
             \<and> (\<forall>e \<in> set emps. Row_ID e = NaN \<or> (\<exists>n. Row_ID e = IntC n))"
  then have pres: "filter (\<lambda>c. c \<noteq> NaN) (map Row_ID emps) = map IntC (int_ids emps)"
    by (simp add: present_ints)
  from h obtain e where e: "e \<in> set emps" "Row_ID e \<noteq> NaN" by blast
  with h obtain n where "Row_ID e = IntC n" by blast
  with e have "n \<in> {n. IntC n \<in> Row_ID ` set emps}" by force
  then have "int_ids emps \<noteq> []"
    using set_int_ids [of emps] by auto
  then obtain k ks where ks: "int_ids emps = k # ks"
    by (cases "int_ids emps") auto
  from h have ne: "emps \<noteq> []" by auto
  have "object_max (IntC k) (map IntC ks) = Some (IntC (Max (set (int_ids emps))))"
    using object_max_ints [of k ks] ks by simp
  then show "next_row_id emps = Max {n. IntC n \<in> Row_ID ` set emps} + 1"
    using pres ks ne set_int_ids [of emps] by (simp add: next_row_id_def)
next
  assume h: "emps \<noteq> [] \<and> (\<forall>e \<in> set emps. \<exists>s. Row_ID e = StrC s \<and> py_int_of_str s = None)"
  then obtain e es where es: "emps = e # es" by (cases emps) auto
  from h have "\<forall>e \<in> set emps. \<exists>s. Row_ID e = StrC s" by blast
  then have pres: "filter (\<lambda>c. c \<noteq> NaN) (map Row_ID emps) = map Row_ID emps"
    by (rule present_strs)
  have "\<forall>c \<in> set (Row_ID e # map Row_ID es). \<exists>s. c = StrC s"
    using h es by auto
  from object_max_strs [OF this] obtain m where
    m: "object_max (Row_ID e) (map Row_ID es) = Some m" "m \<in> set (Row_ID e # map Row_ID es)"
    by blast
  from m(2) h es have "py_int m = None" by auto
  with m(1) pres es show "next_row_id emps = int (length emps) + 1"
    by (simp add: next_row_id_def)
qed

theorem next_row_id_amended_witness:
  "next_row_id [] = 1
   \<and> next_row_id [mk_employee NaN ''E1'' ''Ann'' ''1111'' ''Ops'' ''Active'' ''t0''] = 1
   \<and> next_row_id [mk_employee (IntC 3) ''E1'' ''Ann'' ''1111'' ''Ops'' ''Active'' ''t0'',
                   mk_employee NaN ''E2'' ''Bob'' ''2222'' ''Ops'' ''Active'' ''t0'',
                   mk_employee (IntC 7) ''E3'' ''Cy'' ''3333'' ''Ops'' ''Active'' ''t0'']
       = Max {3, 7} + 1
   \<and> next_row_id [mk_employee (StrC ''abc'') ''E1'' ''Ann'' ''1111'' ''Ops'' ''Active'' ''t0''] = 2"
proof -
  let ?A = "[mk_employee NaN ''E1'' ''Ann'' ''1111'' ''Ops'' ''Active'' ''t0'']"
  let ?B = "[mk_employee (IntC 3) ''E1'' ''Ann'' ''1111'' ''Ops'' ''Active'' ''t0'',
             mk_employee NaN ''E2'' ''Bob'' ''2222'' ''Ops'' ''Active'' ''t0'',
             mk_employee (IntC 7) ''E3'' ''Cy'' ''3333'' ''Ops'' ''Active'' ''t0'']"
  let ?C = "[mk_employee (StrC ''abc'') ''E1'' ''Ann'' ''1111'' ''Ops'' ''Active'' ''t0'']"
  have c0: "next_row_id [] = 1"
    using next_row_id_amended [of "[]", THEN conjunct1] by simp
  have "\<forall>e \<in> set ?A. Row_ID e = NaN"
    by (simp add: mk_employee_def)
  with next_row_id_amended [of ?A, THEN conjunct1] have c1: "next_row_id ?A = 1"
    by (rule mp)
  have hB: "(\<exists>e \<in> set ?B. Row_ID e \<noteq> NaN)
            \<and> (\<forall>e \<in> set ?B. Row_ID e = NaN \<or> (\<exists>n. Row_ID e = IntC n))"
    by (simp add: mk_employee_def)
  have sB: "{n. IntC n \<in> Row_ID ` set ?B} = {3, 7}"
    by (auto simp: mk_employee_def)
  from next_row_id_amended [of ?B, THEN conjunct2, THEN conjunct1] hB
  have "next_row_id ?B = Max {n. IntC n \<in> Row_ID ` set ?B} + 1"
    by (rule mp)
  then have c2: "next_row_id ?B = Max {3, 7} + 1"
    by (simp only: sB)
  have u: "py_int_of_str ''abc'' = None"
    by (simp add: py_int_of_str_def str_eval)
  have hC: "?C \<noteq> [] \<and> (\<forall>e \<in> set ?C. \<exists>s. Row_ID e = StrC s \<and> py_int_of_str s = None)"
    using u by (simp add: mk_employee_def)
  from next_row_id_amended [of ?C, THEN conjunct2, THEN conjunct2] hC
  have "next_row_id ?C = int (length ?C) + 1"
    by (rule mp)
  then have c3: "next_row_id ?C = 2" by simp
  show ?thesis
    by (intro conjI) (rule c0 c1 c2 c3)+
qed

text \<open>
  Claim C1 as stated fails: on a table whose only Row ID is the unparsable text abc the
  result is 2, the row count plus one, and not 1.
\<close>

theorem next_row_id_unparsable_counterexample:
  "py_int (StrC ''abc'') = None
   \<and> next_row_id [mk_employee (StrC ''abc'') ''E1'' ''Ann'' ''1111'' ''Ops'' ''Active'' ''t0''] \<noteq> 1"
  by code_simp


section \<open>Deleting a department\<close>

text \<open>
  Claim C5, as the code has it. The Delete button of the Edit Department form removes
  exactly the selected row of the Departments table, keeps every employee row, blanks
  the Department of every employee whose Department is the deleted name, and leaves
  unchanged every employee whose trimmed Department differs from the trimmed deleted
  name; employees that reference the department do not block it. The Delete choice of
  Manage Departments stores no delete while an employee references the department
  (trimmed match).
\<close>

theorem delete_department_amended:
  "(idx < length (df_dept st) \<longrightarrow>
      fst (edit_dept_delete st idx) = None
      \<and> df_dept (snd (edit_dept_delete st idx)) = take idx (df_dept st) @ drop (Suc idx) (df_dept st)
      \<and> Suc (length (df_dept (snd (edit_dept_delete st idx)))) = length (df_dept st)
      \<and> length (df_emp (snd (edit_dept_delete st idx))) = length (df_emp st)
      \<and> (\<forall>i < length (df_emp st).
            (Department (df_emp st ! i) = StrC (Department_Name (df_dept st ! idx)) \<longrightarrow>
               df_emp (snd (edit_dept_delete st idx)) ! i = (df_emp st ! i)\<lparr>Department := StrC []\<rparr>)
          \<and> (strip (astype_str (Department (df_emp st ! i))) \<noteq> strip (Department_Name (df_dept st ! idx)) \<longrightarrow>
               df_emp (snd (edit_dept_delete st idx)) ! i = df_emp st ! i)))
   \<and> ((\<exists>e \<in> set manage_emp. dept_mask (strip (Department_Name dept_row)) e) \<longrightarrow>
        manage_delete_choice manage_emp dept_row confirm = None)"
proof (intro conjI impI allI)
  assume "\<exists>e \<in> set manage_emp. dept_mask (strip (Department_Name dept_row)) e"
  then have "filter (dept_mask (strip (Department_Name dept_row))) manage_emp \<noteq> []"
    by (simp add: filter_empty_conv)
  then show "manage_delete_choice manage_emp dept_row confirm = None"
    by (simp add: manage_delete_choice_def Let_def)
next
  fix i
  assume "idx < length (df_dept st)" "i < length (df_emp st)"
    and "strip (astype_str (Department (df_emp st ! i))) \<noteq> strip (Department_Name (df_dept st ! idx))"
  moreover from this have "\<not> cell_eq_str (Department (df_emp st ! i)) (Department_Name (df_dept st ! idx))"
    by (cases "Department (df_emp st ! i)") auto
  ultimately show "df_emp (snd (edit_dept_delete st idx)) ! i = df_emp st ! i"
    by (simp add: edit_dept_delete_def Let_def)
qed (simp_all add: edit_dept_delete_def Let_def)

theorem delete_department_amended_witness:
  "fst (edit_dept_delete
      \<lparr>df_emp = [mk_employee (IntC 1) ''E1'' ''Ann'' ''1111'' ''Ops'' ''Active'' ''t0'',
                 mk_employee (IntC 2) ''E2'' ''Bob'' ''2222'' ''Sales'' ''Active'' ''t0''],
       df_dept = [\<lparr>Dept_ID = ''1'', Department_Name = ''Sales'', Description = []\<rparr>,
                  \<lparr>Dept_ID = ''2'', Department_Name = ''Ops'', Description = []\<rparr>]\<rparr> 1) = None
   \<and> df_dept (snd (edit_dept_delete
      \<lparr>df_emp = [mk_employee (IntC 1) ''E1'' ''Ann'' ''1111'' ''Ops'' ''Active'' ''t0'',
                 mk_employee (IntC 2) ''E2'' ''Bob'' ''2222'' ''Sales'' ''Active'' ''t0''],
       df_dept = [\<lparr>Dept_ID = ''1'', Department_Name = ''Sales'', Description = []\<rparr>,
                  \<lparr>Dept_ID = ''2'', Department_Name = ''Ops'', Description = []\<rparr>]\<rparr> 1))
     = [\<lparr>Dept_ID = ''1'', Department_Name = ''Sales'', Description = []\<rparr>]
   \<and> df_emp (snd (edit_dept_delete
      \<lparr>df_emp = [mk_employee (IntC 1) ''E1'' ''Ann'' ''1111'' ''Ops'' ''Active'' ''t0'',
                 mk_employee (IntC 2) ''E2'' ''Bob'' ''2222'' ''Sales'' ''Active'' ''t0''],
       df_dept = [\<lparr>Dept_ID = ''1'', Department_Name = ''Sales'', Description = []\<rparr>,
                  \<lparr>Dept_ID = ''2'', Department_Name = ''Ops'', Description = []\<rparr>]\<rparr> 1)) ! 0
     = mk_employee (IntC 1) ''E1'' ''Ann'' ''1111'' [] ''Active'' ''t0''
   \<and> df_emp (snd (edit_dept_delete
      \<lparr>df_emp = [mk_employee (IntC 1) ''E1'' ''Ann'' ''1111'' ''Ops'' ''Active'' ''t0'',
                 mk_employee (IntC 2) ''E2'' ''Bob'' ''2222'' ''Sales'' ''Active'' ''t0''],
       df_dept = [\<lparr>Dept_ID = ''1'', Department_Name = ''Sales'', Description = []\<rparr>,
                  \<lparr>Dept_ID = ''2'', Department_Name = ''Ops'', Description = []\<rparr>]\<rparr> 1)) ! 1
     = mk_employee (IntC 2) ''E2'' ''Bob'' ''2222'' ''Sales'' ''Active'' ''t0''
   \<and> manage_delete_choice
        [mk_employee (IntC 1) ''E1'' ''Ann'' ''1111'' ''Ops'' ''Active'' ''t0'',
         mk_employee (IntC 2) ''E2'' ''Bob'' ''2222'' ''Sales'' ''Active'' ''t0'']
        \<lparr>Dept_ID = ''2'', Department_Name = ''Ops'', Description = []\<rparr> True = None"
proof -
  let ?st = "\<lparr>df_emp = [mk_employee (IntC 1) ''E1'' ''Ann'' ''1111'' ''Ops'' ''Active'' ''t0'',
                 mk_employee (IntC 2) ''E2'' ''Bob'' ''2222'' ''Sales'' ''Active'' ''t0''],
       df_dept = [\<lparr>Dept_ID = ''1'', Department_Name = ''Sales'', Description = []\<rparr>,
                  \<lparr>Dept_ID = ''2'', Department_Name = ''Ops'', Description = []\<rparr>]\<rparr>"
  let ?row = "\<lparr>Dept_ID = ''2'', Department_Name = ''Ops'', Description = []\<rparr>"
  have h1: "1 < length (df_dept ?st)" by simp
  have h2: "\<exists>e \<in> set (df_emp ?st). dept_mask (strip (Department_Name ?row)) e"
    by (simp add: dept_mask_def str_eval)
  note t = delete_department_amended [of 1 ?st "df_emp ?st" ?row True]
  from t [THEN conjunct1, THEN mp, OF h1]
  have a: "fst (edit_dept_delete ?st 1) = None"
    and b: "df_dept (snd (edit_dept_delete ?st 1)) = take 1 (df_dept ?st) @ drop (Suc 1) (df_dept ?st)"
    and c: "\<forall>i < length (df_emp ?st).
            (Department (df_emp ?st ! i) = StrC (Department_Name (df_dept ?st ! 1)) \<longrightarrow>
               df_emp (snd (edit_dept_delete ?st 1)) ! i = (df_emp ?st ! i)\<lparr>Department := StrC []\<rparr>)
          \<and> (strip (astype_str (Department (df_emp ?st ! i))) \<noteq> strip (Department_Name (df_dept ?st ! 1)) \<longrightarrow>
               df_emp (snd (edit_dept_delete ?st 1)) ! i = df_emp ?st ! i)"
    by blast+
  have e0: "Department (df_emp ?st ! 0) = StrC (Department_Name (df_dept ?st ! 1))"
    by (simp add: mk_employee_def)
  have e1: "strip (astype_str (Department (df_emp ?st ! 1))) \<noteq> strip (Department_Name (df_dept ?st ! 1))"
    by (simp add: str_eval)
  from c e0 have "df_emp (snd (edit_dept_delete ?st 1)) ! 0 = (df_emp ?st ! 0)\<lparr>Department := StrC []\<rparr>"
    by simp
  then have c0: "df_emp (snd (edit_dept_delete ?st 1)) ! 0
                 = mk_employee (IntC 1) ''E1'' ''Ann'' ''1111'' [] ''Active'' ''t0''"
    by (simp add: mk_employee_def)
  from c e1 have "df_emp (snd (edit_dept_delete ?st 1)) ! 1 = df_emp ?st ! 1"
    by simp
  then have c1: "df_emp (snd (edit_dept_delete ?st 1)) ! 1
                 = mk_employee (IntC 2) ''E2'' ''Bob'' ''2222'' ''Sales'' ''Active'' ''t0''"
    by simp
  from b have b': "df_dept (snd (edit_dept_delete ?st 1))
                   = [\<lparr>Dept_ID = ''1'', Department_Name = ''Sales'', Description = []\<rparr>]"
    by simp
  from t [THEN conjunct2, THEN mp, OF h2]
  have "manage_delete_choice (df_emp ?st) ?row True = None" .
  then have d: "manage_delete_choice
        [mk_employee (IntC 1) ''E1'' ''Ann'' ''1111'' ''Ops'' ''Active'' ''t0'',
         mk_employee (IntC 2) ''E2'' ''Bob'' ''2222'' ''Sales'' ''Active'' ''t0''] ?row True = None"
    by simp
  show ?thesis
    by (intro conjI) (rule a b' c0 c1 d)+
qed

text \<open>
  Claim C5 as stated fails in Manage Departments: with one employee in the department
  Ops, a confirmed Delete of Ops stores no action, and Apply Changes leaves both tables
  as they were.
\<close>

theorem manage_delete_blocked_counterexample:
  "manage_delete_choice
     [mk_employee (IntC 1) ''E1'' ''Ann'' ''1111'' ''Ops'' ''Active'' ''t0'']
     \<lparr>Dept_ID = ''2'', Department_Name = ''Ops'', Description = []\<rparr> True = None
   \<and> apply_manage ''t1'' []
       \<lparr>df_emp = [mk_employee (IntC 1) ''E1'' ''Ann'' ''1111'' ''Ops'' ''Active'' ''t0''],
        df_dept = [\<lparr>Dept_ID = ''2'', Department_Name = ''Ops'', Description = []\<rparr>]\<rparr>
     = (Some NoChanges,
        \<lparr>df_emp = [mk_employee (IntC 1) ''E1'' ''Ann'' ''1111'' ''Ops'' ''Active'' ''t0''],
         df_dept = [\<lparr>Dept_ID = ''2'', Department_Name = ''Ops'', Description = []\<rparr>]\<rparr>)"
  by code_simp

section \<open>Reconciliation: a merge pair is processed once\<close>

lemma of_char_nat_neq: "a \<noteq> b \<Longrightarrow> (of_char a :: nat) \<noteq> of_char b"
  by simp

lemma str_ge_total: "str_ge a b \<or> str_ge b a"
proof (induction a b rule: str_ge.induct)
  case (1 s)
  then show ?case by simp
next
  case (2 b bs)
  then show ?case by simp
next
  case (3 a as b bs)
  then show ?case
    using of_char_nat_neq [of a b] by (cases "a = b") (auto simp del: of_char_eq_iff)
qed

lemma str_ge_antisym: "str_ge a b \<Longrightarrow> str_ge b a \<Longrightarrow> a = b"
proof (induction a b rule: str_ge.induct)
  case (1 s)
  then show ?case by (cases s) auto
next
  case (2 b bs)
  then show ?case by simp
next
  case (3 a as b bs)
  then show ?case by (cases "a = b") auto
qed

lemma merge_key_commute: "merge_key a b = merge_key b a"
  using str_ge_total [of a b] str_ge_antisym [of a b]
  by (auto simp: merge_key_def)



lemma apply_sync_mutual_merge:
  assumes "a \<noteq> b" and "set missing \<subseteq> {a, b}"
  shows "apply_sync now missing [(a, SMerge b ma), (b, SMerge a mb)] st
         = (None,
            \<lparr>df_emp = repoint now (\<lambda>e. dept_mask a e \<or> dept_mask b e) ma (df_emp st),
             df_dept = df_dept st @
               [\<lparr>Dept_ID = next_dept_id (df_dept st), Department_Name = ma,
                 Description = ''Merged from: '' @ a @ '', '' @ b\<rparr>]\<rparr>)"
proof -
  have "incomplete missing [(a, SMerge b ma), (b, SMerge a mb)] = []"
    using assms by (auto simp: incomplete_def filter_empty_conv)
  moreover have "merge_key b a = merge_key a b"
    by (rule merge_key_commute)
  ultimately show ?thesis
    by (simp add: apply_sync_def Let_def)
qed

lemma sync_loop_skip_processed:
  "merge_key b a \<in> set P \<Longrightarrow>
   sync_loop now (ys @ (b, SMerge a mb) # zs) P st = sync_loop now (ys @ zs) P st"
proof (induction ys arbitrary: P st)
  case Nil
  then show ?case by simp
next
  case (Cons y ys)
  obtain d act where y: "y = (d, act)" by (cases y)
  show ?case
  proof (cases act)
    case (SCreate rn ds)
    with y Cons show ?thesis by (simp add: Let_def)
  next
    case (SMerge t m)
    with y Cons show ?thesis by (simp add: Let_def)
  next
    case (SMap tgt)
    with y Cons show ?thesis by (cases tgt) simp_all
  next
    case SRemove
    with y Cons show ?thesis by simp
  qed
qed

lemma sync_loop_second_merge_skipped:
  "sync_loop now (xs @ (a, SMerge b ma) # ys @ (b, SMerge a mb) # zs) P st
   = sync_loop now (xs @ (a, SMerge b ma) # ys @ zs) P st"
proof (induction xs arbitrary: P st)
  case Nil
  have k: "merge_key b a = merge_key a b" by (rule merge_key_commute)
  show ?case
  proof (cases "merge_key a b \<in> set P")
    case True
    then show ?thesis
      using sync_loop_skip_processed [of b a P now ys mb zs st] k by simp
  next
    case False
    then show ?thesis
      using sync_loop_skip_processed [of b a "merge_key a b # P" now ys mb zs] k
      by (simp add: Let_def)
  qed
next
  case (Cons x xs)
  obtain d act where x: "x = (d, act)" by (cases x)
  show ?case
  proof (cases act)
    case (SCreate rn ds)
    with x Cons show ?thesis by (simp add: Let_def)
  next
    case (SMerge t m)
    with x Cons show ?thesis by (simp add: Let_def)
  next
    case (SMap tgt)
    with x Cons show ?thesis by (cases tgt) simp_all
  next
    case SRemove
    with x Cons show ?thesis by simp
  qed
qed
















lemma apply_sync_mutual_merge_example:
  "apply_sync ''t1'' [''Ops'', ''Oper'']
       [(''Ops'', SMerge ''Oper'' ''Operations''), (''Oper'', SMerge ''Ops'' ''Ops'')]
       \<lparr>df_emp = [mk_employee (IntC 1) ''E1'' ''Ann'' ''1111'' ''Ops'' ''Active'' ''t0'',
                  mk_employee (IntC 2) ''E2'' ''Bob'' ''2222'' '' Oper'' ''Active'' ''t0'',
                  mk_employee (IntC 3) ''E3'' ''Cy'' ''3333'' ''Sales'' ''Active'' ''t0''],
        df_dept = [\<lparr>Dept_ID = ''1'', Department_Name = ''Sales'', Description = []\<rparr>]\<rparr>
   = (None,
      \<lparr>df_emp = [mk_employee (IntC 1) ''E1'' ''Ann'' ''1111'' ''Operations'' ''Active'' ''t1'',
                 mk_employee (IntC 2) ''E2'' ''Bob'' ''2222'' ''Operations'' ''Active'' ''t1'',
                 mk_employee (IntC 3) ''E3'' ''Cy'' ''3333'' ''Sales'' ''Active'' ''t0''],
       df_dept = [\<lparr>Dept_ID = ''1'', Department_Name = ''Sales'', Description = []\<rparr>,
                  \<lparr>Dept_ID = ''2'', Department_Name = ''Operations'',
                    Description = ''Merged from: Ops, Oper''\<rparr>]\<rparr>)"
  by code_simp

section \<open>Quick Add does not look at the Extension\<close>

text \<open>
  Claim C10. A Quick Add with a non-empty name and extension and an Employee ID that is
  blank or not yet in the table succeeds even though row i already has the same
  Extension: afterwards row i and the appended row share it. A bulk-import row with a
  name and that Extension is classified as a duplicate whenever the tracking set
  contains the extensions of the table.
\<close>

theorem add_emp_form_ignores_extension:
  assumes "new_name f \<noteq> []" and "new_extension f \<noteq> []"
    and "strip (new_empid f) = []
         \<or> strip (new_empid f) \<notin> set (map (\<lambda>e. astype_str (Employee_ID e)) (df_emp st))"
    and "i < length (df_emp st)"
    and "astype_str (Extension (df_emp st ! i)) = new_extension f"
  shows "fst (add_emp_form now st f) = None
     \<and> length (df_emp (snd (add_emp_form now st f))) = Suc (length (df_emp st))
     \<and> df_emp (snd (add_emp_form now st f)) ! i = df_emp st ! i
     \<and> astype_str (Extension (df_emp (snd (add_emp_form now st f)) ! i)) = new_extension f
     \<and> Extension (df_emp (snd (add_emp_form now st f)) ! length (df_emp st)) = StrC (new_extension f)
     \<and> (\<forall>r ids exts. strip (n_Name r) \<noteq> [] \<and> strip (n_Extension r) = new_extension f
            \<and> set (map (\<lambda>e. astype_str (Extension e)) (df_emp st)) \<subseteq> exts \<longrightarrow>
            classify ids exts r = RDuplicate)"
proof -
  have ext_mem: "new_extension f \<in> set (map (\<lambda>e. astype_str (Extension e)) (df_emp st))"
    using assms(4,5) by (metis (mono_tags, lifting) image_eqI list.set_map nth_mem)
  have res: "add_emp_form now st f =
     (None, st\<lparr>df_emp := df_emp st @
        [\<lparr>Row_ID = IntC (next_row_id (df_emp st)),
          Employee_ID = StrC (strip (new_empid f)),
          Name = StrC (new_name f),
          Extension = StrC (new_extension f),
          Department = StrC (new_department f),
          Cell_Number = StrC (strip (new_cell f)),
          Location = StrC (strip (new_location f)),
          Status = StrC (new_status f),
          Notes = StrC (strip (new_notes f)),
          Last_Updated = StrC now\<rparr>]\<rparr>)"
    using assms(1,2,3) by (auto simp: add_emp_form_def Let_def)
  have cls: "\<forall>r ids exts. strip (n_Name r) \<noteq> [] \<and> strip (n_Extension r) = new_extension f
            \<and> set (map (\<lambda>e. astype_str (Extension e)) (df_emp st)) \<subseteq> exts \<longrightarrow>
            classify ids exts r = RDuplicate"
    using ext_mem assms(2) by (auto simp: classify_def Let_def)
  show ?thesis
    using res cls assms(4,5) by (simp add: nth_append)
qed

theorem add_emp_form_ignores_extension_witness:
  "fst (add_emp_form ''t1''
      \<lparr>df_emp = [mk_employee (IntC 1) ''E1'' ''Ann'' ''1111'' ''Ops'' ''Active'' ''t0''], df_dept = []\<rparr>
      \<lparr>new_empid = ''E2'', new_name = ''Bob'', new_extension = ''1111'', new_department = [],
       new_cell = [], new_location = [], new_status = ''Active'', new_notes = []\<rparr>) = None
   \<and> map Extension (df_emp (snd (add_emp_form ''t1''
      \<lparr>df_emp = [mk_employee (IntC 1) ''E1'' ''Ann'' ''1111'' ''Ops'' ''Active'' ''t0''], df_dept = []\<rparr>
      \<lparr>new_empid = ''E2'', new_name = ''Bob'', new_extension = ''1111'', new_department = [],
       new_cell = [], new_location = [], new_status = ''Active'', new_notes = []\<rparr>)))
     = [StrC ''1111'', StrC ''1111'']
   \<and> classify {''E1''} {''1111''}
       \<lparr>n_Row_ID = 2, n_File_Row = 2, n_Employee_ID = ''E2'', n_Name = ''Bob'',
        n_Extension = ''1111'', n_Department = [], n_Cell_Number = [], n_Location = [],
        n_Status = ''Active'', n_Notes = [], n_Last_Updated = ''t1''\<rparr> = RDuplicate"
proof -
  let ?st = "\<lparr>df_emp = [mk_employee (IntC 1) ''E1'' ''Ann'' ''1111'' ''Ops'' ''Active'' ''t0''], df_dept = []\<rparr>"
  let ?f = "\<lparr>new_empid = ''E2'', new_name = ''Bob'', new_extension = ''1111'', new_department = [],
       new_cell = [], new_location = [], new_status = ''Active'', new_notes = []\<rparr>"
  let ?r = "\<lparr>n_Row_ID = 2, n_File_Row = 2, n_Employee_ID = ''E2'', n_Name = ''Bob'',
        n_Extension = ''1111'', n_Department = [], n_Cell_Number = [], n_Location = [],
        n_Status = ''Active'', n_Notes = [], n_Last_Updated = ''t1''\<rparr>"
  have h1: "new_name ?f \<noteq> []" and h2: "new_extension ?f \<noteq> []" by simp_all
  have h3: "strip (new_empid ?f) = []
         \<or> strip (new_empid ?f) \<notin> set (map (\<lambda>e. astype_str (Employee_ID e)) (df_emp ?st))"
    by (simp add: str_eval)
  have h4: "0 < length (df_emp ?st)" by simp
  have h5: "astype_str (Extension (df_emp ?st ! 0)) = new_extension ?f"
    by (simp add: mk_employee_def)
  note t = add_emp_form_ignores_extension [OF h1 h2 h3 h4 h5, of "''t1''"]
  from t have a: "fst (add_emp_form ''t1'' ?st ?f) = None" by blast
  from t have l: "length (df_emp (snd (add_emp_form ''t1'' ?st ?f))) = Suc (length (df_emp ?st))"
    by blast
  from t have e0: "df_emp (snd (add_emp_form ''t1'' ?st ?f)) ! 0 = df_emp ?st ! 0" by blast
  from t have e1: "Extension (df_emp (snd (add_emp_form ''t1'' ?st ?f)) ! length (df_emp ?st))
                   = StrC (new_extension ?f)" by blast
  from t have "strip (n_Name ?r) \<noteq> [] \<and> strip (n_Extension ?r) = new_extension ?f
            \<and> set (map (\<lambda>e. astype_str (Extension e)) (df_emp ?st)) \<subseteq> {''1111''} \<longrightarrow>
            classify {''E1''} {''1111''} ?r = RDuplicate"
    by blast
  then have c: "classify {''E1''} {''1111''} ?r = RDuplicate"
    by (simp add: str_eval)
  from l obtain x y where xy: "df_emp (snd (add_emp_form ''t1'' ?st ?f)) = [x, y]"
    by (cases "df_emp (snd (add_emp_form ''t1'' ?st ?f))" rule: list.exhaust; simp)
       (metis length_0_conv length_Suc_conv)
  with e0 e1 have "map Extension (df_emp (snd (add_emp_form ''t1'' ?st ?f))) = [StrC ''1111'', StrC ''1111'']"
    by (simp add: mk_employee_def)
  with a c show ?thesis by blast
qed

end
